theory Spec2Isabelle
  imports Complex_Main
begin

section \<open>Numbers and small helpers of script.js\<close>

text \<open>
  A JavaScript Number is modelled as a real, with exact arithmetic. The rounding of IEEE
  doubles is modelled where it decides what is shown: in \<open>frameTick\<close>, whose quotient
  is rounded to an integer. The camera's aspect and the pointer's coordinates, quotients
  whose divisor can be 0, have a type of their own that holds the infinities and \<open>NaN\<close>.
\<close>

definition clamp :: "real \<Rightarrow> real \<Rightarrow> real \<Rightarrow> real" where
  "clamp v a b = max a (min b v)"

definition lerp :: "real \<Rightarrow> real \<Rightarrow> real \<Rightarrow> real" where
  "lerp a b t = a + (b - a) * t"

definition easeOutCubic :: "real \<Rightarrow> real" where
  "easeOutCubic t = 1 - (1 - t) ^ 3"

text \<open>
  The double nearest to a real, a tie going to the even significand: 53 significant bits,
  and steps of \<open>2 ^ - 1074\<close> below \<open>2 ^ - 1022\<close>. Beyond the largest double the code has
  \<open>Infinity\<close>; no clock reading or frame count gets there.
\<close>

definition round_half_even :: "real \<Rightarrow> int" where
  "round_half_even y =
     (let f = \<lfloor>y\<rfloor>; r = y - of_int f
      in if r < 1 / 2 then f else if 1 / 2 < r then f + 1 else if even f then f else f + 1)"

definition fl64 :: "real \<Rightarrow> real" where
  "fl64 x =
     (if x = 0 then 0
      else (let e = max \<lfloor>log 2 \<bar>x\<bar>\<rfloor> (- 1022);
                u = 2 powi (e - 52)
            in sgn x * (of_int (round_half_even (\<bar>x\<bar> / u)) * u)))"

text \<open>\<open>Math.round\<close>: the nearest integer, a tie going up.\<close>

definition Math_round :: "real \<Rightarrow> int" where
  "Math_round v = \<lfloor>v + 1 / 2\<rfloor>"

text \<open>
  The remainder operator \<open>%\<close> on numbers, for a divisor other than 0: the sign follows
  the dividend.
\<close>

definition js_rem :: "real \<Rightarrow> real \<Rightarrow> real" where
  "js_rem a b = a - b * of_int (if 0 \<le> a / b then \<lfloor>a / b\<rfloor> else \<lceil>a / b\<rceil>)"

section \<open>Vectors and meshes\<close>

datatype vec2 = Vector2 (ux: real) (uy: real)

datatype vec3 = Vector3 (vx: real) (vy: real) (vz: real)

definition distanceTo :: "vec3 \<Rightarrow> vec3 \<Rightarrow> real" where
  "distanceTo a b = sqrt ((vx a - vx b)\<^sup>2 + (vy a - vy b)\<^sup>2 + (vz a - vz b)\<^sup>2)"

definition setScalar :: "real \<Rightarrow> vec3" where
  "setScalar s = Vector3 s s s"

text \<open>
  \<open>TorusGeometry(radius, tube, 20, 80)\<close> and the \<open>MeshStandardMaterial\<close> of a ring,
  the colour kept as the three arguments of \<open>setHSL\<close>.
\<close>

record torus_geometry =
  radius :: real
  tube :: real

record standard_material =
  hue :: real
  saturation :: real
  lightness :: real
  metalness :: real
  roughness :: real

record mesh =
  position :: vec3
  rotation :: vec3
  scale :: vec3
  index :: nat
  geometry :: "torus_geometry option"
  material :: "standard_material option"

subsection \<open>buildTori\<close>

definition count :: nat where
  "count = 9"

definition buildTorus :: "nat \<Rightarrow> mesh" where
  "buildTorus i =
     \<lparr> position = Vector3 (cos (real i / real count * pi * 2) * (1.6 + real i * 0.14))
                          (sin (real i / real count * pi * 2) * (0.6 + real i * 0.06))
                          (- real i * 0.06),
       rotation = Vector3 (pi * 0.15 * (if i mod 2 \<noteq> 0 then - 1 else 1)) 0 0,
       scale = Vector3 1 1 1,
       index = i,
       geometry = Some \<lparr> radius = 0.8 + real i * 0.08, tube = 0.08 + real (i mod 2) * 0.03 \<rparr>,
       material = Some \<lparr> hue = js_rem (0.55 + (real i / real count) * 0.25) 1,
                          saturation = 0.7, lightness = 0.48,
                          metalness = 0.6, roughness = 0.18 \<rparr> \<rparr>"

definition buildTori :: "mesh list" where
  "buildTori = map buildTorus [0 ..< count]"

subsection \<open>updateTori\<close>

text \<open>The body of the \<open>forEach\<close> in \<open>updateTori\<close>, for one ring and the pointer point.\<close>

definition updateTorus :: "vec3 \<Rightarrow> mesh \<Rightarrow> mesh" where
  "updateTorus pointer3D m =
     (let d = distanceTo (position m) pointer3D;
          t = clamp (1 - d * 0.26) 0 1;
          s = lerp 0.98 1.14 (easeOutCubic t)
      in m \<lparr> scale := setScalar s,
             rotation := Vector3 (vx (rotation m))
                                 (vy (rotation m) + 0.001)
                                 (vz (rotation m) + (0.002 + 0.002 * real (index m mod 3))) \<rparr>)"

definition updateTori :: "vec3 \<Rightarrow> mesh list \<Rightarrow> mesh list" where
  "updateTori pointer3D children = map (updateTorus pointer3D) children"


section \<open>The Perf module\<close>

text \<open>
  \<open>String(n)\<close> for an integer: its decimal digits. The dash written for a value that
  could not be read is U+2014, kept here as its three UTF-8 bytes.
\<close>

fun String_nat :: "nat \<Rightarrow> string" where
  "String_nat n =
     (if n < 10 then [''0123456789'' ! n]
      else String_nat (n div 10) @ [''0123456789'' ! (n mod 10)])"

declare String_nat.simps [simp del]

definition String_int :: "int \<Rightarrow> string" where
  "String_int i = (if i < 0 then ''-'' @ String_nat (nat (- i)) else String_nat (nat i))"

definition em_dash :: string where
  "em_dash = [char_of (226::nat), char_of (128::nat), char_of (148::nat)]"

text \<open>
  The objects \<open>frameTick\<close> reads. A property that may be \<open>undefined\<close> is an option;
  reading a property of \<open>undefined\<close> throws a \<open>TypeError\<close>.
\<close>

datatype js_error = TypeError

record js_render =
  triangles :: "nat option"

record js_info =
  render :: "js_render option"

record webgl_renderer =
  pixelRatio :: real
  surface_size :: "nat \<times> nat"
  info :: "js_info option"
  renderCalls :: nat

record js_memory =
  usedJSHeapSize :: "nat option"

record js_performance =
  memory :: "js_memory option"

text \<open>\<open>renderer.info.render.triangles\<close>\<close>

definition read_triangles :: "webgl_renderer \<Rightarrow> js_error + nat option" where
  "read_triangles r =
     (case info r of
        None \<Rightarrow> Inl TypeError
      | Some i \<Rightarrow> (case render i of None \<Rightarrow> Inl TypeError | Some rd \<Rightarrow> Inr (triangles rd)))"

text \<open>\<open>v || d\<close> for a number that may be \<open>undefined\<close>: zero and \<open>undefined\<close> are falsy.\<close>

definition js_or :: "'a::zero option \<Rightarrow> 'a \<Rightarrow> 'a" where
  "js_or v d = (case v of None \<Rightarrow> d | Some n \<Rightarrow> if n \<noteq> 0 then n else d)"

text \<open>
  The state of \<open>Perf\<close>: \<open>last\<close>, \<open>frames\<close>, \<open>fps\<close>, and the text of the three elements
  found at start-up, \<open>None\<close> for an element that \<open>q\<close> did not find.
\<close>

record perf =
  perf_last :: real
  perf_frames :: nat
  perf_fps :: int
  fpsEl :: "string option"
  trisEl :: "string option"
  memEl :: "string option"

definition tris_text :: "webgl_renderer \<Rightarrow> string" where
  "tris_text r =
     (case read_triangles r of
        Inr v \<Rightarrow> String_nat (js_or v 0)
      | Inl e \<Rightarrow> em_dash)"

definition mem_text :: "js_performance option \<Rightarrow> string" where
  "mem_text performance =
     (case performance of
        None \<Rightarrow> em_dash
      | Some p \<Rightarrow>
          (case memory p of
             None \<Rightarrow> em_dash
           | Some mem \<Rightarrow>
               (case usedJSHeapSize mem of
                  None \<Rightarrow> em_dash
                | Some b \<Rightarrow>
                    (if b \<noteq> 0
                     then String_int (Math_round (real b / 1024 / 1024)) @ ''MB''
                     else em_dash))))"

text \<open>
  \<open>frameTick(renderer)\<close>; \<open>t\<close> is what \<open>now()\<close> returns in it and \<open>performance\<close> the
  global of that name. The difference of the two clock readings, the product and the
  quotient are doubles.
\<close>

definition frameTick :: "js_performance option \<Rightarrow> real \<Rightarrow> webgl_renderer option \<Rightarrow> perf \<Rightarrow> perf" where
  "frameTick performance t renderer P =
     (let frames' = perf_frames P + 1;
          dt = fl64 (t - perf_last P)
      in if dt \<ge> 1000 then
           (let fps' = Math_round (fl64 (fl64 (real frames' * 1000) / dt))
            in P \<lparr> perf_last := t,
                   perf_frames := 0,
                   perf_fps := fps',
                   fpsEl := map_option (\<lambda>_. String_int fps') (fpsEl P),
                   trisEl := (case renderer of
                                None \<Rightarrow> trisEl P
                              | Some r \<Rightarrow> map_option (\<lambda>_. tris_text r) (trisEl P)),
                   memEl := map_option (\<lambda>_. mem_text performance) (memEl P) \<rparr>)
         else P \<lparr> perf_frames := frames' \<rparr>)"

text \<open>A run of ticks of the monitor, one clock reading each.\<close>

definition frameTicks :: "js_performance option \<Rightarrow> webgl_renderer option \<Rightarrow> real list \<Rightarrow> perf \<Rightarrow> perf" where
  "frameTicks performance renderer ts P = foldl (\<lambda>Q t. frameTick performance t renderer Q) P ts"

section \<open>Three.js: ray against plane\<close>

text \<open>
  \<open>Ray.distanceToPlane\<close>, \<open>Ray.at\<close> and \<open>Ray.intersectPlane\<close> of the library, which the
  pointer handler calls: \<open>intersectPlane(plane, target)\<close> writes the point into \<open>target\<close>
  when there is one and returns \<open>null\<close>, leaving \<open>target\<close> as it was, when there is none.
\<close>

record ray3 =
  origin :: vec3
  direction :: vec3

record plane3 =
  normal :: vec3
  plane_constant :: real

definition dot :: "vec3 \<Rightarrow> vec3 \<Rightarrow> real" where
  "dot a b = vx a * vx b + vy a * vy b + vz a * vz b"

definition distanceToPoint :: "plane3 \<Rightarrow> vec3 \<Rightarrow> real" where
  "distanceToPoint pl p = dot (normal pl) p + plane_constant pl"

definition distanceToPlane :: "ray3 \<Rightarrow> plane3 \<Rightarrow> real option" where
  "distanceToPlane r pl =
     (let denominator = dot (normal pl) (direction r)
      in if denominator = 0 then
           (if distanceToPoint pl (origin r) = 0 then Some 0 else None)
         else
           (let t = - (dot (origin r) (normal pl) + plane_constant pl) / denominator
            in if t \<ge> 0 then Some t else None))"

definition ray_at :: "ray3 \<Rightarrow> real \<Rightarrow> vec3" where
  "ray_at r t = Vector3 (vx (origin r) + vx (direction r) * t)
                        (vy (origin r) + vy (direction r) * t)
                        (vz (origin r) + vz (direction r) * t)"

definition intersectPlane :: "ray3 \<Rightarrow> plane3 \<Rightarrow> vec3 \<Rightarrow> vec3" where
  "intersectPlane r pl target =
     (case distanceToPlane r pl of None \<Rightarrow> target | Some t \<Rightarrow> ray_at r t)"

text \<open>
  The two library routines whose result depends on the camera's pose and projection are
  parameters: \<open>OrbitControls.update\<close> and \<open>Raycaster.setFromCamera\<close>, with \<open>'c\<close> the
  camera's pose.
\<close>

record 'c three =
  controls_update :: "'c \<Rightarrow> 'c"
  setFromCamera :: "vec2 \<Rightarrow> 'c \<Rightarrow> ray3"

section \<open>setupThree\<close>

text \<open>
  A Number that need not be finite. The quotient of two non-negative integers as
  JavaScript computes it: a division by zero gives \<open>Infinity\<close>, and \<open>0 / 0\<close> gives
  \<open>NaN\<close>. The quotient of a number by a non-negative integer likewise, and \<open>k * v + c\<close>
  for finite \<open>k\<close> and \<open>c\<close>.
\<close>

datatype jsnum = Num real | Infinity | NegInfinity | NaN

definition js_div :: "nat \<Rightarrow> nat \<Rightarrow> jsnum" where
  "js_div a b = (if b \<noteq> 0 then Num (real a / real b) else if a \<noteq> 0 then Infinity else NaN)"

definition js_quot :: "real \<Rightarrow> nat \<Rightarrow> jsnum" where
  "js_quot a b =
     (if b \<noteq> 0 then Num (a / real b)
      else if 0 < a then Infinity else if a < 0 then NegInfinity else NaN)"

definition js_affine :: "real \<Rightarrow> real \<Rightarrow> jsnum \<Rightarrow> jsnum" where
  "js_affine k c v =
     (case v of
        Num r \<Rightarrow> Num (k * r + c)
      | Infinity \<Rightarrow> (if 0 < k then Infinity else if k < 0 then NegInfinity else NaN)
      | NegInfinity \<Rightarrow> (if 0 < k then NegInfinity else if k < 0 then Infinity else NaN)
      | NaN \<Rightarrow> NaN)"

record window =
  innerWidth :: nat
  innerHeight :: nat
  devicePixelRatio :: "real option"

record pointer_event =
  clientX :: real
  clientY :: real

definition pixelRatioLimit :: real where
  "pixelRatioLimit = 2"

text \<open>The resources \<open>dispose\<close> is called on, the two of a ring named by the ring's index.\<close>

datatype resource =
  TheRenderer | ParticlesGeo | ParticlesMat | RingGeometry nat | RingMaterial nat

text \<open>
  The variables of the closure of \<open>setupThree\<close> that change after construction, with the
  state of \<open>Perf\<close>. \<open>camera_projection_aspect\<close> is the aspect the projection matrix was
  last computed from, \<open>rafRequests\<close> counts the calls of
  \<open>requestAnimationFrame(renderLoop)\<close>, and \<open>released\<close> lists the calls of a
  \<open>dispose\<close> method of a resource, in order.
\<close>

record 'c engine =
  renderer :: webgl_renderer
  camera_aspect :: jsnum
  camera_projection_aspect :: jsnum
  camera_pose :: 'c
  root_rotation_y :: real
  root_position_y :: real
  torusGroup :: "mesh list"
  uTime :: real
  particleSystem_rotation_y :: real
  orbitLight_position :: vec3
  pointer :: "jsnum \<times> jsnum"
  pointer3D :: vec3
  elapsed :: real
  lastTime :: real
  rafRequests :: nat
  released :: "resource list"
  Perf :: perf

definition updateProjectionMatrix :: "'c engine \<Rightarrow> 'c engine" where
  "updateProjectionMatrix s = s \<lparr> camera_projection_aspect := camera_aspect s \<rparr>"

definition resize :: "window \<Rightarrow> 'c engine \<Rightarrow> 'c engine" where
  "resize win s =
     (let DPR = min (js_or (devicePixelRatio win) 1) pixelRatioLimit;
          w = innerWidth win;
          h = innerHeight win;
          s1 = s \<lparr> renderer := (renderer s) \<lparr> pixelRatio := DPR \<rparr> \<rparr>;
          s2 = s1 \<lparr> renderer := (renderer s1) \<lparr> surface_size := (w, h) \<rparr> \<rparr>;
          s3 = s2 \<lparr> camera_aspect := js_div w h \<rparr>
      in updateProjectionMatrix s3)"

text \<open>
  \<open>onPointerMove\<close>. Over a window of width or height 0 a coordinate of the pointer is
  not finite; the ray the raycaster then sets has \<open>NaN\<close> for its direction, every
  comparison in \<open>distanceToPlane\<close> fails and \<open>intersectPlane\<close> returns \<open>null\<close>, so the
  world point is kept.
\<close>

definition onPointerMove :: "'c three \<Rightarrow> window \<Rightarrow> pointer_event \<Rightarrow> 'c engine \<Rightarrow> 'c engine" where
  "onPointerMove L win e s =
     (let x = js_affine 2 (- 1) (js_quot (clientX e) (innerWidth win));
          y = js_affine (- 2) 1 (js_quot (clientY e) (innerHeight win));
          planeZ = \<lparr> normal = Vector3 0 0 1, plane_constant = 0 \<rparr>
      in case (x, y) of
           (Num a, Num b) \<Rightarrow>
             s \<lparr> pointer := (x, y),
                 pointer3D := intersectPlane (setFromCamera L (Vector2 a b) (camera_pose s))
                                planeZ (pointer3D s) \<rparr>
         | _ \<Rightarrow> s \<lparr> pointer := (x, y) \<rparr>)"

text \<open>
  What one frame reads from outside: the clock in \<open>renderLoop\<close>, the clock again in
  \<open>frameTick\<close>, the number of triangles the renderer counted while drawing, and the
  global \<open>performance\<close>.
\<close>

record frame_input =
  t_loop :: real
  t_perf :: real
  drawn :: nat
  performance_global :: "js_performance option"

text \<open>\<open>renderer.render(scene, camera)\<close>: one more draw, and its triangle count.\<close>

definition render_scene :: "nat \<Rightarrow> webgl_renderer \<Rightarrow> webgl_renderer" where
  "render_scene n r =
     r \<lparr> renderCalls := renderCalls r + 1,
         info := Some \<lparr> render = Some \<lparr> triangles = Some n \<rparr> \<rparr> \<rparr>"

definition animateThree :: "'c three \<Rightarrow> frame_input \<Rightarrow> real \<Rightarrow> 'c engine \<Rightarrow> 'c engine" where
  "animateThree L inp dt s =
     (let elapsed' = elapsed s + dt;
          renderer' = render_scene (drawn inp) (renderer s)
      in s \<lparr> elapsed := elapsed',
             root_rotation_y := sin (elapsed' * 0.0005) * 0.12,
             root_position_y := sin (elapsed' * 0.0003) * 0.12,
             uTime := elapsed',
             particleSystem_rotation_y := particleSystem_rotation_y s + 0.0002,
             orbitLight_position := Vector3 (cos (elapsed' * 0.0007) * 3.6)
                                            (vy (orbitLight_position s))
                                            (sin (elapsed' * 0.0009) * 3.6),
             torusGroup := updateTori (pointer3D s) (torusGroup s),
             camera_pose := controls_update L (camera_pose s),
             renderer := renderer',
             Perf := frameTick (performance_global inp) (t_perf inp) (Some renderer') (Perf s) \<rparr>)"

definition renderLoop :: "'c three \<Rightarrow> frame_input \<Rightarrow> 'c engine \<Rightarrow> 'c engine" where
  "renderLoop L inp s =
     (let t = t_loop inp;
          dt = t - lastTime s;
          s1 = s \<lparr> lastTime := t \<rparr>;
          s2 = animateThree L inp dt s1
      in s2 \<lparr> rafRequests := rafRequests s2 + 1 \<rparr>)"

text \<open>The \<open>dispose\<close> of the returned object.\<close>

definition dispose_mesh :: "mesh \<Rightarrow> resource list" where
  "dispose_mesh m =
     (if geometry m \<noteq> None then [RingGeometry (index m)] else []) @
     (if material m \<noteq> None then [RingMaterial (index m)] else [])"

definition dispose :: "'c engine \<Rightarrow> 'c engine" where
  "dispose s =
     s \<lparr> released := released s @ [TheRenderer, ParticlesGeo, ParticlesMat]
                        @ concat (map dispose_mesh (torusGroup s)) \<rparr>"

text \<open>
  \<open>setupThree\<close>, as far as the state above goes. \<open>canvas\<close> is the size of the canvas
  element, \<open>None\<close> when there is none; \<open>pose\<close> the camera's pose at \<open>(0, 0, 6)\<close>;
  \<open>t0\<close> the clock when \<open>lastTime\<close> is set.
\<close>

definition setupThree :: "(nat \<times> nat) option \<Rightarrow> window \<Rightarrow> 'c \<Rightarrow> real \<Rightarrow> perf \<Rightarrow> 'c engine option" where
  "setupThree canvas win pose t0 P =
     (case canvas of
        None \<Rightarrow> None
      | Some sz \<Rightarrow>
          Some (resize win
            \<lparr> renderer = \<lparr> pixelRatio = min (js_or (devicePixelRatio win) 1) pixelRatioLimit,
                           surface_size = sz,
                           info = Some \<lparr> render = Some \<lparr> triangles = Some 0 \<rparr> \<rparr>,
                           renderCalls = 0 \<rparr>,
              camera_aspect = js_div (innerWidth win) (innerHeight win),
              camera_projection_aspect = js_div (innerWidth win) (innerHeight win),
              camera_pose = pose,
              root_rotation_y = 0,
              root_position_y = 0,
              torusGroup = buildTori,
              uTime = 0,
              particleSystem_rotation_y = 0,
              orbitLight_position = Vector3 4 3.4 2,
              pointer = (Num (- 1), Num (- 1)),
              pointer3D = Vector3 0 0 0,
              elapsed = 0,
              lastTime = t0,
              rafRequests = 1,
              released = [],
              Perf = P \<rparr>))"

text \<open>
  What happens to an engine after construction: an animation frame, the debounced
  \<open>resize\<close> with the window as it is then, a pointer move, a call of \<open>dispose\<close>.
  Each handler runs to its end before the next starts.
\<close>

datatype event =
  Frame frame_input
| Resize window
| PointerMove window pointer_event
| Dispose

fun step :: "'c three \<Rightarrow> 'c engine \<Rightarrow> event \<Rightarrow> 'c engine" where
  "step L s (Frame inp) = renderLoop L inp s"
| "step L s (Resize win) = resize win s"
| "step L s (PointerMove win e) = onPointerMove L win e s"
| "step L s Dispose = dispose s"

definition run :: "'c three \<Rightarrow> 'c engine \<Rightarrow> event list \<Rightarrow> 'c engine" where
  "run L s evs = foldl (step L) s evs"

section \<open>Predicates of the specification\<close>

text \<open>The hue of ring \<open>i\<close> in the words of the specification.\<close>

definition spec_hue :: "nat \<Rightarrow> real" where
  "spec_hue i = js_rem (0.55 + (real i / 9) * 0.25) 1"


text \<open>
  The camera's aspect, the aspect its projection matrix was computed from and the size of
  the surface agree.
\<close>

definition surface_consistent :: "'c engine \<Rightarrow> bool" where
  "surface_consistent s \<longleftrightarrow>
     camera_projection_aspect s = camera_aspect s \<and>
     camera_aspect s = js_div (fst (surface_size (renderer s))) (snd (surface_size (renderer s)))"

text \<open>A ring's scale is uniform and lies between 0.98 and 1.14.\<close>

definition scale_in_bounds :: "mesh \<Rightarrow> bool" where
  "scale_in_bounds m \<longleftrightarrow>
     scale m = setScalar (vx (scale m)) \<and> 0.98 \<le> vx (scale m) \<and> vx (scale m) \<le> 1.14"

section \<open>Example inputs\<close>

text \<open>
  A monitor with all three elements present; a renderer whose \<open>info.render\<close> has no
  \<open>triangles\<close>; a camera at \<open>(0, 0, 6)\<close> that looks down the negative z axis, and one
  that looks the other way; a window of 800 by 600; the engine set up in it at clock 1000;
  a frame whose clock reads 400; a pointer at three quarters of the width and one quarter
  of the height.
\<close>

definition example_perf :: perf where
  "example_perf = \<lparr> perf_last = 0, perf_frames = 0, perf_fps = 0,
                     fpsEl = Some ''0'', trisEl = Some ''1234'', memEl = Some ''12MB'' \<rparr>"


definition example_three :: "unit three" where
  "example_three = \<lparr> controls_update = (\<lambda>c. c),
                      setFromCamera = (\<lambda>p c. \<lparr> origin = Vector3 0 0 6,
                                                 direction = Vector3 (ux p) (uy p) (- 1) \<rparr>) \<rparr>"

definition example_three_away :: "unit three" where
  "example_three_away = \<lparr> controls_update = (\<lambda>c. c),
                      setFromCamera = (\<lambda>p c. \<lparr> origin = Vector3 0 0 6,
                                                 direction = Vector3 (ux p) (uy p) 1 \<rparr>) \<rparr>"

definition example_window :: window where
  "example_window = \<lparr> innerWidth = 800, innerHeight = 600, devicePixelRatio = Some 1 \<rparr>"

definition example_engine :: "unit engine" where
  "example_engine = the (setupThree (Some (300, 150)) example_window () 1000 example_perf)"

definition example_frame :: frame_input where
  "example_frame = \<lparr> t_loop = 400, t_perf = 400, drawn = 0, performance_global = None \<rparr>"

definition example_move :: pointer_event where
  "example_move = \<lparr> clientX = 600, clientY = 150 \<rparr>"

section \<open>Helper facts\<close>

subsection \<open>Easing and clamping\<close>

lemma easeOutCubic_mono:
  assumes "t \<le> t'" and "t' \<le> 1"
  shows "easeOutCubic t \<le> easeOutCubic t'"
proof -
  have "(1 - t') ^ 3 \<le> (1 - t) ^ 3"
    using assms by (intro power_mono) auto
  then show ?thesis by (simp add: easeOutCubic_def)
qed

lemma clamp_unit: "0 \<le> clamp v 0 1 \<and> clamp v 0 1 \<le> 1"
  by (simp add: clamp_def)

lemma clamp_mono: "v \<le> w \<Longrightarrow> clamp v a b \<le> clamp w a b"
  by (auto simp: clamp_def max_def min_def)

lemma easeOutCubic_unit:
  assumes "0 \<le> t" and "t \<le> 1"
  shows "0 \<le> easeOutCubic t \<and> easeOutCubic t \<le> 1"
proof -
  have "easeOutCubic 0 \<le> easeOutCubic t"
    using assms by (intro easeOutCubic_mono) auto
  moreover have "easeOutCubic t \<le> easeOutCubic 1"
    using assms by (intro easeOutCubic_mono) auto
  ultimately show ?thesis by (simp add: easeOutCubic_def)
qed

lemma scale_updateTorus:
  "scale (updateTorus p m) =
     setScalar (lerp 0.98 1.14 (easeOutCubic (clamp (1 - distanceTo (position m) p * 0.26) 0 1)))"
  by (simp add: updateTorus_def Let_def)

lemma ring_scale_bounds:
  "0.98 \<le> lerp 0.98 1.14 (easeOutCubic (clamp v 0 1)) \<and>
   lerp 0.98 1.14 (easeOutCubic (clamp v 0 1)) \<le> 1.14"
proof -
  define e where "e = easeOutCubic (clamp v 0 1)"
  have "0 \<le> e \<and> e \<le> 1"
    unfolding e_def using clamp_unit [of v] by (intro easeOutCubic_unit) auto
  then have "0.98 \<le> lerp 0.98 1.14 e \<and> lerp 0.98 1.14 e \<le> 1.14"
    by (simp add: lerp_def)
  then show ?thesis by (simp add: e_def)
qed

lemma ring_scale_antimono:
  assumes "d \<le> d'"
  shows "lerp 0.98 1.14 (easeOutCubic (clamp (1 - d' * 0.26) 0 1))
       \<le> lerp 0.98 1.14 (easeOutCubic (clamp (1 - d * 0.26) 0 1))"
proof -
  have "clamp (1 - d' * 0.26) 0 1 \<le> clamp (1 - d * 0.26) 0 1"
    using assms by (intro clamp_mono) simp
  then have "easeOutCubic (clamp (1 - d' * 0.26) 0 1) \<le> easeOutCubic (clamp (1 - d * 0.26) 0 1)"
    using clamp_unit [of "1 - d * 0.26"] by (intro easeOutCubic_mono) auto
  then show ?thesis by (simp add: lerp_def)
qed

lemma nth_updateTori:
  "i < length children \<Longrightarrow> updateTori p children ! i = updateTorus p (children ! i)"
  by (simp add: updateTori_def)

lemma nth_buildTori: "i < count \<Longrightarrow> buildTori ! i = buildTorus i"
  by (simp add: buildTori_def)

lemma js_rem_unit:
  assumes "0 \<le> a" and "a < 1"
  shows "js_rem a 1 = a"
proof -
  have "\<lfloor>a\<rfloor> = 0" using assms by linarith
  then show ?thesis using assms by (simp add: js_rem_def)
qed

subsection \<open>Rounding to a double\<close>

lemma round_half_even_of_int: "round_half_even (of_int n) = n"
  by (simp add: round_half_even_def)

lemma round_half_even_ge:
  assumes "of_int n \<le> y"
  shows "n \<le> round_half_even y"
proof -
  have "n \<le> \<lfloor>y\<rfloor>" using assms by (simp add: le_floor_iff)
  then show ?thesis by (auto simp: round_half_even_def Let_def)
qed

lemma two_powr_int: "(2::real) powr real_of_int n = 2 powi n"
  by (rule powr_real_of_int') auto

lemma exponent_bounds:
  assumes "0 < x"
  shows "2 powi \<lfloor>log 2 x\<rfloor> \<le> x \<and> x < 2 powi (\<lfloor>log 2 x\<rfloor> + 1)"
proof -
  have "2 powr (of_int \<lfloor>log 2 x\<rfloor>) \<le> x \<and> x < 2 powr (of_int (\<lfloor>log 2 x\<rfloor> + 1))"
    using floor_log_eq_powr_iff [of x 2 "\<lfloor>log 2 x\<rfloor>"] assms by simp
  then show ?thesis by (simp only: two_powr_int)
qed

lemma exponent_eq:
  assumes "0 < x" and "2 powi k \<le> x" and "x < 2 powi (k + 1)"
  shows "\<lfloor>log 2 x\<rfloor> = k"
proof -
  have "2 powr (of_int k) \<le> x \<and> x < 2 powr (of_int (k + 1))"
    using assms by (simp only: two_powr_int) 
  then show ?thesis
    using floor_log_eq_powr_iff [of x 2 k] assms(1) by simp
qed

lemma fl64_pos:
  assumes "0 < x" and "2 powi k \<le> x" and "x < 2 powi (k + 1)" and "- 1022 \<le> k"
  shows "fl64 x = of_int (round_half_even (x / 2 powi (k - 52))) * 2 powi (k - 52)"
proof -
  have "\<lfloor>log 2 \<bar>x\<bar>\<rfloor> = k" using assms by (simp add: exponent_eq)
  then show ?thesis using assms by (simp add: fl64_def Let_def max_def)
qed

lemma fl64_sgn: "fl64 x = sgn x * fl64 \<bar>x\<bar>"
proof (cases "x = 0")
  case True
  then show ?thesis by (simp add: fl64_def)
next
  case False
  have "fl64 \<bar>x\<bar> = (let e = max \<lfloor>log 2 \<bar>x\<bar>\<rfloor> (- 1022); u = 2 powi (e - 52)
       in of_int (round_half_even (\<bar>x\<bar> / u)) * u)"
    using False unfolding fl64_def by (simp only: abs_abs abs_eq_0 if_False sgn_abs Let_def)
      (simp add: sgn_if)
  then show ?thesis using False unfolding fl64_def by (simp only: if_False Let_def)
qed

lemma two_powi_below:
  assumes "e \<le> 52"
  shows "(2::real) powi (e - 52) = 1 / 2 ^ nat (52 - e)"
proof -
  have "e - 52 = - int (nat (52 - e))" using assms by simp
  then have "(2::real) powi (e - 52) = 2 powi (- int (nat (52 - e)))" by (simp only:)
  also have "\<dots> = inverse (2 powi int (nat (52 - e)))" by (rule power_int_minus)
  also have "\<dots> = 1 / 2 ^ nat (52 - e)" by (simp only: power_int_of_nat inverse_eq_divide)
  finally show ?thesis .
qed

lemma fl64_of_int:
  assumes "\<bar>z\<bar> < 2 ^ 53"
  shows "fl64 (of_int z) = of_int z"
proof (cases "z = 0")
  case True
  then show ?thesis by (simp add: fl64_def)
next
  case False
  define x :: real where "x = \<bar>of_int z\<bar>"
  define e where "e = \<lfloor>log 2 x\<rfloor>"
  have x1: "1 \<le> x" using False by (simp add: x_def)
  have x53: "x < 2 ^ 53"
  proof -
    have "real_of_int \<bar>z\<bar> < real_of_int (2 ^ 53)" using assms by (simp only: of_int_less_iff)
    then show ?thesis by (simp add: x_def)
  qed
  have b: "2 powi e \<le> x \<and> x < 2 powi (e + 1)"
    unfolding e_def using x1 by (intro exponent_bounds) simp
  have e0: "0 \<le> e"
  proof (rule ccontr)
    assume "\<not> 0 \<le> e"
    then have "e + 1 \<le> 0" by simp
    then have "(2::real) powi (e + 1) \<le> 2 powi 0" by (intro power_int_increasing) simp_all
    then show False using b x1 by simp
  qed
  have e52: "e \<le> 52"
  proof (rule ccontr)
    assume "\<not> e \<le> 52"
    then have "53 \<le> e" by simp
    then have "(2::real) powi 53 \<le> 2 powi e" by (intro power_int_increasing) simp_all
    then show False using b x53 by simp
  qed
  define j where "j = nat (52 - e)"
  have u: "(2::real) powi (e - 52) = 1 / 2 ^ j"
    unfolding j_def using e52 by (rule two_powi_below)
  have q: "x / 2 powi (e - 52) = of_int (\<bar>z\<bar> * 2 ^ j)"
    by (simp add: u x_def)
  have r: "round_half_even (x / 2 powi (e - 52)) = \<bar>z\<bar> * 2 ^ j"
    unfolding q by (rule round_half_even_of_int)
  have "fl64 x = of_int (round_half_even (x / 2 powi (e - 52))) * 2 powi (e - 52)"
    using x1 b e0 by (intro fl64_pos) simp_all
  then have "fl64 (of_int z) = sgn (of_int z) * (of_int (round_half_even (x / 2 powi (e - 52))) * 2 powi (e - 52))"
    using fl64_sgn [of "of_int z"] by (simp only: x_def)
  also have "\<dots> = sgn (of_int z) * (of_int (\<bar>z\<bar> * 2 ^ j) * (1 / 2 ^ j))"
    by (simp only: r, simp only: u)
  also have "\<dots> = sgn (of_int z) * \<bar>of_int z\<bar>"
    by simp
  also have "\<dots> = of_int z"
    by (simp add: sgn_if)
  finally show ?thesis .
qed

lemma fl64_ge:
  assumes "real N \<le> x" and "0 < N" and "N \<le> 2 ^ 52"
  shows "real N \<le> fl64 x"
proof -
  define e where "e = \<lfloor>log 2 x\<rfloor>"
  have xpos: "0 < x" and x1: "1 \<le> x" using assms by simp_all
  have b: "2 powi e \<le> x \<and> x < 2 powi (e + 1)"
    unfolding e_def using xpos by (rule exponent_bounds)
  have e0: "0 \<le> e"
  proof (rule ccontr)
    assume "\<not> 0 \<le> e"
    then have "e + 1 \<le> 0" by simp
    then have "(2::real) powi (e + 1) \<le> 2 powi 0" by (intro power_int_increasing) simp_all
    then show False using b x1 by simp
  qed
  have f: "fl64 x = of_int (round_half_even (x / 2 powi (e - 52))) * 2 powi (e - 52)"
    using xpos b e0 by (intro fl64_pos) simp_all
  show ?thesis
  proof (cases "e \<le> 52")
    case True
    define j where "j = nat (52 - e)"
    have u: "(2::real) powi (e - 52) = 1 / 2 ^ j"
      unfolding j_def using True by (rule two_powi_below)
    have "real_of_int (int N * 2 ^ j) \<le> x / 2 powi (e - 52)"
      using assms(1) by (simp add: u)
    then have "int N * 2 ^ j \<le> round_half_even (x / 2 powi (e - 52))"
      by (rule round_half_even_ge)
    then have "real_of_int (int N * 2 ^ j) \<le> real_of_int (round_half_even (x / 2 powi (e - 52)))"
      by (simp only: of_int_le_iff)
    then have "real_of_int (int N * 2 ^ j) * (1 / 2 ^ j)
        \<le> real_of_int (round_half_even (x / 2 powi (e - 52))) * (1 / 2 ^ j)"
      by (intro mult_right_mono) simp_all
    then show ?thesis by (simp add: f u)
  next
    case False
    define j where "j = nat (e - 52)"
    have u: "(2::real) powi (e - 52) = 2 ^ j"
    proof -
      have "e - 52 = int j" using False by (simp add: j_def)
      then show ?thesis by simp
    qed
    have "e = 52 + int j" using False by (simp add: j_def)
    then have "(2::real) powi e = 2 ^ 52 * 2 ^ j"
      by (simp add: power_int_add)
    then have "real_of_int (2 ^ 52) \<le> x / 2 powi (e - 52)"
      using b by (simp add: u field_simps)
    then have "2 ^ 52 \<le> round_half_even (x / 2 powi (e - 52))"
      by (rule round_half_even_ge)
    then have "real_of_int (2 ^ 52) \<le> real_of_int (round_half_even (x / 2 powi (e - 52)))"
      by (simp only: of_int_le_iff)
    moreover have "(1::real) \<le> 2 ^ j" by simp
    ultimately have "real_of_int (2 ^ 52) * 1
        \<le> real_of_int (round_half_even (x / 2 powi (e - 52))) * 2 ^ j"
      by (intro mult_mono) simp_all
    moreover have "real N \<le> 2 ^ 52"
    proof -
      have "real N \<le> real (2 ^ 52)" using assms(3) by (simp only: of_nat_le_iff)
      then show ?thesis by simp
    qed
    ultimately show ?thesis by (simp add: f u)
  qed
qed

subsection \<open>The monitor\<close>

lemma fl64_numeral:
  assumes "(numeral n :: int) < 2 ^ 53"
  shows "fl64 (numeral n) = numeral n"
  using fl64_of_int [of "numeral n"] assms by simp

lemma fl64_of_nat:
  assumes "n < 2 ^ 53"
  shows "fl64 (real n) = real n"
proof -
  have "int n < int (2 ^ 53)" using assms by (simp only: of_nat_less_iff)
  then show ?thesis using fl64_of_int [of "int n"] by simp
qed

lemma fl64_sample:
  assumes "1000 \<le> x"
  shows "1000 \<le> fl64 x"
  using fl64_ge [of 1000 x] assms by simp

lemma frameTick_below:
  assumes "fl64 (t - perf_last P) < 1000"
  shows "frameTick pf t r P = P \<lparr> perf_frames := perf_frames P + 1 \<rparr>"
  using assms by (simp add: frameTick_def Let_def)

lemma frameTicks_below:
  assumes "\<forall>t \<in> set ts. fl64 (t - perf_last P) < 1000"
  shows "frameTicks pf r ts P = P \<lparr> perf_frames := perf_frames P + length ts \<rparr>"
  using assms
proof (induction ts arbitrary: P)
  case Nil
  then show ?case by (simp add: frameTicks_def)
next
  case (Cons t ts)
  have step: "frameTick pf t r P = P \<lparr> perf_frames := perf_frames P + 1 \<rparr>"
    using Cons.prems by (simp add: frameTick_below)
  have "frameTicks pf r (t # ts) P = frameTicks pf r ts (frameTick pf t r P)"
    by (simp add: frameTicks_def)
  also have "\<dots> = (frameTick pf t r P) \<lparr> perf_frames := perf_frames (frameTick pf t r P) + length ts \<rparr>"
    using Cons.prems by (intro Cons.IH) (simp add: step)
  finally show ?case by (simp add: step)
qed

lemma frameTicks_snoc:
  "frameTicks pf r (ts @ [t]) P = frameTick pf t r (frameTicks pf r ts P)"
  by (simp add: frameTicks_def)

lemma Math_round_of_nat: "Math_round (real n) = int n"
  unfolding Math_round_def by linarith

lemma frameTick_sample:
  assumes "1000 \<le> fl64 (t - perf_last P)"
  shows "perf_fps (frameTick pf t r P)
           = \<lfloor>fl64 (fl64 (real (perf_frames P + 1) * 1000) / fl64 (t - perf_last P)) + 1 / 2\<rfloor>"
    and "perf_last (frameTick pf t r P) = t"
    and "perf_frames (frameTick pf t r P) = 0"
    and "fpsEl (frameTick pf t r P)
           = map_option (\<lambda>_. String_int (perf_fps (frameTick pf t r P))) (fpsEl P)"
    and "trisEl (frameTick pf t r P)
           = (case r of None \<Rightarrow> trisEl P | Some rr \<Rightarrow> map_option (\<lambda>_. tris_text rr) (trisEl P))"
    and "memEl (frameTick pf t r P) = map_option (\<lambda>_. mem_text pf) (memEl P)"
  using assms by (simp_all add: frameTick_def Let_def Math_round_def)


subsection \<open>Ray and plane\<close>

lemma distanceToPlane_planeZ_Some:
  assumes "distanceToPlane r \<lparr> normal = Vector3 0 0 1, plane_constant = 0 \<rparr> = Some t"
  shows "0 \<le> t \<and> vz (ray_at r t) = 0"
  using assms
  by (auto simp: distanceToPlane_def distanceToPoint_def dot_def ray_at_def Let_def
      split: if_splits)

subsection \<open>Runs of events\<close>

lemma run_invariant:
  assumes "I s" and "\<And>s ev. I s \<Longrightarrow> I (step L s ev)"
  shows "I (run L s evs)"
  using assms(1) unfolding run_def
proof (induction evs arbitrary: s)
  case Nil
  then show ?case by simp
next
  case (Cons ev evs)
  then show ?case using assms(2) by simp
qed

lemma setupThree_Some:
  assumes "setupThree canvas win pose t0 P = Some s0"
  obtains sz where "canvas = Some sz"
    and "s0 = resize win
            \<lparr> renderer = \<lparr> pixelRatio = min (js_or (devicePixelRatio win) 1) pixelRatioLimit,
                           surface_size = sz,
                           info = Some \<lparr> render = Some \<lparr> triangles = Some 0 \<rparr> \<rparr>,
                           renderCalls = 0 \<rparr>,
              camera_aspect = js_div (innerWidth win) (innerHeight win),
              camera_projection_aspect = js_div (innerWidth win) (innerHeight win),
              camera_pose = pose,
              root_rotation_y = 0,
              root_position_y = 0,
              torusGroup = buildTori,
              uTime = 0,
              particleSystem_rotation_y = 0,
              orbitLight_position = Vector3 4 3.4 2,
              pointer = (Num (- 1), Num (- 1)),
              pointer3D = Vector3 0 0 0,
              elapsed = 0,
              lastTime = t0,
              rafRequests = 1,
              released = [],
              Perf = P \<rparr>"
  using assms by (auto simp: setupThree_def split: option.splits)

lemma setupThree_example:
  "setupThree (Some (300, 150)) example_window () 1000 example_perf = Some example_engine"
  by (simp add: example_engine_def setupThree_def)

lemma torusGroup_resize [simp]: "torusGroup (resize win s) = torusGroup s"
  by (simp add: resize_def updateProjectionMatrix_def Let_def)

lemma torusGroup_onPointerMove [simp]: "torusGroup (onPointerMove L win e s) = torusGroup s"
  by (simp add: onPointerMove_def Let_def split: jsnum.splits)

lemma torusGroup_dispose [simp]: "torusGroup (dispose s) = torusGroup s"
  by (simp add: dispose_def)

lemma torusGroup_renderLoop [simp]:
  "torusGroup (renderLoop L inp s) = updateTori (pointer3D s) (torusGroup s)"
  by (simp add: renderLoop_def animateThree_def Let_def)

lemma torusGroup_setupThree:
  "setupThree canvas win pose t0 P = Some s0 \<Longrightarrow> torusGroup s0 = buildTori"
  by (erule setupThree_Some) simp

lemma torusGroup_example: "torusGroup example_engine = buildTori"
  using setupThree_example by (rule torusGroup_setupThree)

lemma released_example: "released example_engine = []"
  by (simp add: example_engine_def setupThree_def resize_def updateProjectionMatrix_def Let_def)

subsection \<open>Clock and draws along a run\<close>

lemma run_Cons: "run L s (ev # evs) = run L (step L s ev) evs"
  by (simp add: run_def)

lemma run_Nil: "run L s [] = s"
  by (simp add: run_def)

lemma clock_step: "elapsed (step L s ev) - lastTime (step L s ev) = elapsed s - lastTime s"
proof (cases ev)
  case (Frame inp)
  then show ?thesis by (simp add: renderLoop_def animateThree_def Let_def)
next
  case (Resize win)
  then show ?thesis by (simp add: resize_def updateProjectionMatrix_def Let_def)
next
  case (PointerMove win e)
  then show ?thesis by (simp add: onPointerMove_def Let_def split: jsnum.splits)
next
  case Dispose
  then show ?thesis by (simp add: dispose_def)
qed

lemma clock_run: "elapsed (run L s evs) - lastTime (run L s evs) = elapsed s - lastTime s"
proof -
  define c where "c = elapsed s - lastTime s"
  have "elapsed s - lastTime s = c" by (simp add: c_def)
  then have "elapsed (run L s evs) - lastTime (run L s evs) = c"
    by (rule run_invariant) (simp add: clock_step)
  then show ?thesis by (simp add: c_def)
qed

lemma draws_frames:
  "renderCalls (renderer (run L s (map Frame inps))) = renderCalls (renderer s) + length inps
   \<and> rafRequests (run L s (map Frame inps)) = rafRequests s + length inps
   \<and> released (run L s (map Frame inps)) = released s"
proof (induction inps arbitrary: s)
  case Nil
  then show ?case by (simp add: run_Nil)
next
  case (Cons inp inps)
  have "renderCalls (renderer (renderLoop L inp s)) = renderCalls (renderer s) + 1"
    and "rafRequests (renderLoop L inp s) = rafRequests s + 1"
    and "released (renderLoop L inp s) = released s"
    by (simp_all add: renderLoop_def animateThree_def render_scene_def Let_def)
  then show ?case
    using Cons.IH [of "renderLoop L inp s"] by (simp add: run_Cons)
qed

subsection \<open>Surface and camera\<close>

lemma surface_consistent_resize: "surface_consistent (resize win s)"
  by (simp add: surface_consistent_def resize_def updateProjectionMatrix_def Let_def)

lemma surface_consistent_step:
  assumes "surface_consistent s"
  shows "surface_consistent (step L s ev)"
proof (cases ev)
  case (Frame inp)
  then show ?thesis
    using assms
    by (simp add: surface_consistent_def renderLoop_def animateThree_def render_scene_def Let_def)
next
  case (Resize win)
  then show ?thesis by (simp add: surface_consistent_resize)
next
  case (PointerMove win e)
  then show ?thesis
    using assms by (simp add: surface_consistent_def onPointerMove_def Let_def split: jsnum.splits)
next
  case Dispose
  then show ?thesis using assms by (simp add: surface_consistent_def dispose_def)
qed

subsection \<open>Released resources\<close>

lemma dispose_mesh_updateTorus [simp]: "dispose_mesh (updateTorus p m) = dispose_mesh m"
  by (simp add: dispose_mesh_def updateTorus_def Let_def)

lemma dispose_mesh_updateTori [simp]:
  "map dispose_mesh (updateTori p ms) = map dispose_mesh ms"
  by (simp add: updateTori_def)

lemma dispose_mesh_buildTorus: "dispose_mesh (buildTorus i) = [RingGeometry i, RingMaterial i]"
  by (simp add: dispose_mesh_def buildTorus_def)

lemma length_dispose_buildTori: "length (concat (map dispose_mesh buildTori)) = 18"
proof -
  have "map dispose_mesh buildTori = map (\<lambda>i. [RingGeometry i, RingMaterial i]) [0 ..< count]"
    by (simp add: buildTori_def dispose_mesh_buildTorus)
  then have "length (concat (map dispose_mesh buildTori)) = 2 * count"
    by (simp add: length_concat comp_def sum_list_triv)
  then show ?thesis by (simp add: count_def)
qed

lemma rings_step:
  "map dispose_mesh (torusGroup (step L s ev)) = map dispose_mesh (torusGroup s)"
  by (cases ev) simp_all

lemma rings_run:
  assumes "setupThree canvas win pose t0 P = Some s0"
  shows "map dispose_mesh (torusGroup (run L s0 evs)) = map dispose_mesh buildTori"
proof -
  have "map dispose_mesh (torusGroup s0) = map dispose_mesh buildTori"
    using assms by (simp add: torusGroup_setupThree)
  then show ?thesis
    by (rule run_invariant) (simp add: rings_step)
qed

lemma length_torusGroup_run:
  assumes "setupThree canvas win pose t0 P = Some s0"
  shows "length (torusGroup (run L s0 evs)) = 9"
proof -
  have "length (map dispose_mesh (torusGroup (run L s0 evs))) = length (map dispose_mesh buildTori)"
    using rings_run [OF assms] by (rule arg_cong)
  then show ?thesis by (simp add: buildTori_def count_def)
qed

subsection \<open>Scale bounds\<close>

lemma scale_in_bounds_updateTorus: "scale_in_bounds (updateTorus p m)"
  using ring_scale_bounds [of "1 - distanceTo (position m) p * 0.26"]
  by (simp add: scale_in_bounds_def scale_updateTorus setScalar_def)

lemma scale_in_bounds_updateTori: "\<forall>m \<in> set (updateTori p ms). scale_in_bounds m"
  by (simp add: updateTori_def scale_in_bounds_updateTorus)

lemma scale_in_bounds_buildTori: "\<forall>m \<in> set buildTori. scale_in_bounds m"
  by (simp add: buildTori_def buildTorus_def scale_in_bounds_def setScalar_def)

lemma scale_in_bounds_step:
  assumes "\<forall>m \<in> set (torusGroup s). scale_in_bounds m"
  shows "\<forall>m \<in> set (torusGroup (step L s ev)). scale_in_bounds m"
  using assms by (cases ev) (simp_all add: scale_in_bounds_updateTori)

section \<open>The claims\<close>

subsection \<open>Ring scale as a function of the pointer distance\<close>

text \<open>
  C1. Every frame sets the rings to \<open>updateTori\<close> of the stored pointer point. For every
  ring of the group and every pointer point, with \<open>d\<close> the Euclidean distance between the
  ring's position and the pointer point, \<open>updateTori\<close> leaves the ring where it is and sets
  each of the three components of its scale to
  \<open>0.98 + (1.14 - 0.98) * (1 - (1 - max(0, min(1, 1 - d * 0.26)))\<^sup>3)\<close>, which is
  \<open>lerp(0.98, 1.14, easeOutCubic(clamp(1 - d * 0.26, 0, 1)))\<close>. At \<open>d = 0\<close> the scale
  is 1.14, at every \<open>d \<ge> 1 / 0.26\<close> it is 0.98, and a pointer point that is no nearer
  gives a scale that is no larger: the scale is non-increasing in \<open>d\<close>, on
  \<open>[0, 1 / 0.26]\<close> and beyond.
\<close>

theorem updateTori_scale_by_distance:
  assumes "i < length children"
  shows "torusGroup (renderLoop L inp s) = updateTori (pointer3D s) (torusGroup s)
       \<and> position (updateTori p children ! i) = position (children ! i)
       \<and> (let m = children ! i;
               d = sqrt ((vx (position m) - vx p)\<^sup>2 + (vy (position m) - vy p)\<^sup>2
                         + (vz (position m) - vz p)\<^sup>2);
               \<sigma> = 0.98 + (1.14 - 0.98) * (1 - (1 - max 0 (min 1 (1 - d * 0.26))) ^ 3)
           in scale (updateTori p children ! i) = Vector3 \<sigma> \<sigma> \<sigma>
            \<and> (d = 0 \<longrightarrow> scale (updateTori p children ! i) = Vector3 1.14 1.14 1.14)
            \<and> (1 / 0.26 \<le> d \<longrightarrow> scale (updateTori p children ! i) = Vector3 0.98 0.98 0.98)
            \<and> (\<forall>q. d \<le> sqrt ((vx (position m) - vx q)\<^sup>2 + (vy (position m) - vy q)\<^sup>2
                               + (vz (position m) - vz q)\<^sup>2) \<longrightarrow>
                   vx (scale (updateTori q children ! i))
                     \<le> vx (scale (updateTori p children ! i))))"
proof -
  define dist where "dist q = sqrt ((vx (position (children ! i)) - vx q)\<^sup>2
      + (vy (position (children ! i)) - vy q)\<^sup>2 + (vz (position (children ! i)) - vz q)\<^sup>2)" for q
  define sig where "sig q = 0.98 + (1.14 - 0.98) * (1 - (1 - max 0 (min 1 (1 - dist q * 0.26))) ^ 3)" for q
  have d: "distanceTo (position (children ! i)) q = dist q" for q
    by (simp add: distanceTo_def dist_def)
  have l: "lerp 0.98 1.14 (easeOutCubic (clamp (1 - dist q * 0.26) 0 1)) = sig q" for q
    by (simp add: lerp_def easeOutCubic_def clamp_def sig_def)
  have eq: "scale (updateTori q children ! i) = Vector3 (sig q) (sig q) (sig q)" for q
    using assms by (simp only: nth_updateTori scale_updateTorus setScalar_def d l)
  have pos: "position (updateTori p children ! i) = position (children ! i)"
    using assms by (simp add: nth_updateTori updateTorus_def Let_def)
  have zero: "sig p = 1.14" if "dist p = 0"
    using that by (simp add: sig_def)
  have far: "sig p = 0.98" if "1 / 0.26 \<le> dist p"
  proof -
    have "1 - dist p * 0.26 \<le> 0" using that by (simp add: field_simps)
    then have "max 0 (min 1 (1 - dist p * 0.26)) = 0" by simp
    then show ?thesis by (simp add: sig_def)
  qed
  have mono: "sig q \<le> sig p" if "dist p \<le> dist q" for q
    using ring_scale_antimono [OF that] by (simp only: l)
  have link: "torusGroup (renderLoop L inp s) = updateTori (pointer3D s) (torusGroup s)"
    by (rule torusGroup_renderLoop)
  have body: "scale (updateTori p children ! i) = Vector3 (sig p) (sig p) (sig p)
      \<and> (dist p = 0 \<longrightarrow> scale (updateTori p children ! i) = Vector3 1.14 1.14 1.14)
      \<and> (1 / 0.26 \<le> dist p \<longrightarrow> scale (updateTori p children ! i) = Vector3 0.98 0.98 0.98)
      \<and> (\<forall>q. dist p \<le> dist q \<longrightarrow>
             vx (scale (updateTori q children ! i)) \<le> vx (scale (updateTori p children ! i)))"
    using zero far mono by (simp add: eq)
  show ?thesis
    unfolding Let_def using link pos body unfolding sig_def dist_def by blast
qed

text \<open>
  Ring 0 of the cluster lies at \<open>(1.6, 0, 0)\<close>. A frame of the fresh engine, whose pointer
  point is the origin, finds it at distance 1.6; then the pointer on the ring, at distance
  3 (one, two and two along the axes) and at distance 4, and two distances compared.
\<close>

theorem updateTori_scale_by_distance_witness:
  "scale (torusGroup (renderLoop example_three example_frame example_engine) ! 0)
     = Vector3 1.12848139264 1.12848139264 1.12848139264
   \<and> scale (updateTori (Vector3 1.6 0 0) buildTori ! 0) = Vector3 1.14 1.14 1.14
   \<and> scale (updateTori (Vector3 2.6 2 2) buildTori ! 0)
     = Vector3 1.06407168 1.06407168 1.06407168
   \<and> scale (updateTori (Vector3 1.6 4 0) buildTori ! 0) = Vector3 0.98 0.98 0.98
   \<and> vx (scale (updateTori (Vector3 2.6 2 2) buildTori ! 0))
     \<le> vx (scale (updateTori (Vector3 0 0 0) buildTori ! 0))"
proof -
  have len: "0 < length buildTori" by (simp add: buildTori_def count_def)
  have pos: "position (buildTori ! 0) = Vector3 1.6 0 0"
    by (simp add: nth_buildTori count_def buildTorus_def)
  have r16: "sqrt (64 / 25) = 8 / 5"
    using real_sqrt_abs [of "8 / 5"] by (simp add: power2_eq_square)
  have r9: "sqrt 9 = 3"
    using real_sqrt_abs [of 3] by simp
  have r4: "sqrt 16 = 4"
    using real_sqrt_abs [of 4] by simp
  have p0: "pointer3D example_engine = Vector3 0 0 0"
    by (simp add: example_engine_def setupThree_def resize_def updateProjectionMatrix_def Let_def)
  have a: "scale (updateTori (Vector3 0 0 0) buildTori ! 0)
      = Vector3 1.12848139264 1.12848139264 1.12848139264"
    using updateTori_scale_by_distance
            [OF len, of example_three example_frame example_engine "Vector3 0 0 0"]
    by (simp add: Let_def pos power2_eq_square power3_eq_cube r16)
  have e: "scale (torusGroup (renderLoop example_three example_frame example_engine) ! 0)
      = Vector3 1.12848139264 1.12848139264 1.12848139264"
    using updateTori_scale_by_distance
            [OF len, of example_three example_frame example_engine "Vector3 0 0 0"] a
    by (simp add: p0 torusGroup_example)
  have b: "scale (updateTori (Vector3 1.6 0 0) buildTori ! 0) = Vector3 1.14 1.14 1.14"
    using updateTori_scale_by_distance
            [OF len, of example_three example_frame example_engine "Vector3 1.6 0 0"]
    by (simp add: Let_def pos power3_eq_cube)
  have c: "scale (updateTori (Vector3 2.6 2 2) buildTori ! 0)
      = Vector3 1.06407168 1.06407168 1.06407168"
    using updateTori_scale_by_distance
            [OF len, of example_three example_frame example_engine "Vector3 2.6 2 2"]
    by (simp add: Let_def pos power2_eq_square power3_eq_cube r9)
  have f: "scale (updateTori (Vector3 1.6 4 0) buildTori ! 0) = Vector3 0.98 0.98 0.98"
    using updateTori_scale_by_distance
            [OF len, of example_three example_frame example_engine "Vector3 1.6 4 0"]
    by (simp add: Let_def pos power2_eq_square power3_eq_cube r4)
  have m: "vx (scale (updateTori (Vector3 2.6 2 2) buildTori ! 0))
      \<le> vx (scale (updateTori (Vector3 0 0 0) buildTori ! 0))"
    unfolding a c by simp
  show ?thesis using e b c f m by blast
qed

subsection \<open>Resize\<close>

text \<open>
  C2. For every window size and every device pixel ratio (a positive number), after
  \<open>resize\<close> the renderer's pixel ratio is \<open>min(devicePixelRatio, 2)\<close>, the surface has
  the window's width and height, the camera's aspect is the quotient \<open>width / height\<close> as
  JavaScript computes it (the real quotient when the height is not 0), and the projection
  is computed from that aspect. The three are written in one handler: in every state an
  engine reaches after \<open>setupThree\<close>, whatever frames, resizes, pointer moves and
  disposals came before, aspect, projection and surface size agree.
\<close>

theorem resize_surface:
  fixes L :: "'c three" and s :: "'c engine"
  assumes "devicePixelRatio win = Some d" and "0 < d"
  shows "pixelRatio (renderer (resize win s)) = min d 2
       \<and> surface_size (renderer (resize win s)) = (innerWidth win, innerHeight win)
       \<and> camera_aspect (resize win s) = js_div (innerWidth win) (innerHeight win)
       \<and> (innerHeight win \<noteq> 0 \<longrightarrow>
            camera_aspect (resize win s) = Num (real (innerWidth win) / real (innerHeight win)))
       \<and> camera_projection_aspect (resize win s) = camera_aspect (resize win s)
       \<and> (\<forall>canvas win0 pose t0 P s0 evs.
            setupThree canvas win0 pose t0 P = Some s0 \<longrightarrow>
              camera_projection_aspect (run L s0 evs) = camera_aspect (run L s0 evs)
            \<and> camera_aspect (run L s0 evs)
                = js_div (fst (surface_size (renderer (run L s0 evs))))
                         (snd (surface_size (renderer (run L s0 evs)))))"
proof -
  have pr: "pixelRatio (renderer (resize win s)) = min d 2"
    using assms
    by (simp add: resize_def updateProjectionMatrix_def Let_def js_or_def pixelRatioLimit_def)
  have sz: "surface_size (renderer (resize win s)) = (innerWidth win, innerHeight win)"
    by (simp add: resize_def updateProjectionMatrix_def Let_def)
  have asp: "camera_aspect (resize win s) = js_div (innerWidth win) (innerHeight win)"
    by (simp add: resize_def updateProjectionMatrix_def Let_def)
  have prj: "camera_projection_aspect (resize win s) = camera_aspect (resize win s)"
    by (simp add: resize_def updateProjectionMatrix_def Let_def)
  have inv: "surface_consistent (run L s0 evs)"
    if "setupThree canvas win0 pose t0 P = Some s0"
    for canvas win0 pose t0 P evs and s0 :: "'c engine"
  proof -
    have "surface_consistent s0"
      using that by (elim setupThree_Some) (simp add: surface_consistent_resize)
    then show ?thesis
      by (rule run_invariant) (rule surface_consistent_step)
  qed
  show ?thesis
    using pr sz asp prj inv unfolding surface_consistent_def by (simp add: js_div_def)
qed

text \<open>
  A ratio of 3 on a window of 1024 by 768 and a ratio of 1.5; a frame, the resize and a
  frame on the engine set up in a window of 800 by 600.
\<close>

theorem resize_surface_witness:
  "pixelRatio (renderer (resize \<lparr> innerWidth = 1024, innerHeight = 768, devicePixelRatio = Some 3 \<rparr>
                                example_engine)) = 2
   \<and> pixelRatio (renderer (resize \<lparr> innerWidth = 1024, innerHeight = 768, devicePixelRatio = Some 1.5 \<rparr>
                                example_engine)) = 1.5
   \<and> surface_size (renderer (resize \<lparr> innerWidth = 1024, innerHeight = 768, devicePixelRatio = Some 3 \<rparr>
                                example_engine)) = (1024, 768)
   \<and> camera_aspect (resize \<lparr> innerWidth = 1024, innerHeight = 768, devicePixelRatio = Some 3 \<rparr>
                            example_engine) = Num (4 / 3)
   \<and> camera_projection_aspect
        (resize \<lparr> innerWidth = 1024, innerHeight = 768, devicePixelRatio = Some 3 \<rparr> example_engine)
       = Num (4 / 3)
   \<and> camera_aspect
        (run example_three example_engine
           [Frame example_frame,
            Resize \<lparr> innerWidth = 1024, innerHeight = 768, devicePixelRatio = Some 3 \<rparr>,
            Frame example_frame])
       = js_div (fst (surface_size (renderer
           (run example_three example_engine
              [Frame example_frame,
               Resize \<lparr> innerWidth = 1024, innerHeight = 768, devicePixelRatio = Some 3 \<rparr>,
               Frame example_frame]))))
           (snd (surface_size (renderer
           (run example_three example_engine
              [Frame example_frame,
               Resize \<lparr> innerWidth = 1024, innerHeight = 768, devicePixelRatio = Some 3 \<rparr>,
               Frame example_frame]))))"
proof -
  let ?w = "\<lparr> innerWidth = 1024, innerHeight = 768, devicePixelRatio = Some 3 \<rparr>"
  let ?v = "\<lparr> innerWidth = 1024, innerHeight = 768, devicePixelRatio = Some 1.5 \<rparr>"
  have d: "devicePixelRatio ?w = Some 3" "(0::real) < 3" and h: "innerHeight ?w \<noteq> 0"
    by simp_all
  have d': "devicePixelRatio ?v = Some 1.5" "(0::real) < 1.5"
    by simp_all
  have a: "pixelRatio (renderer (resize ?w example_engine)) = 2
         \<and> surface_size (renderer (resize ?w example_engine)) = (1024, 768)
         \<and> camera_aspect (resize ?w example_engine) = Num (4 / 3)
         \<and> camera_projection_aspect (resize ?w example_engine) = Num (4 / 3)"
    using resize_surface [OF d, of example_engine example_three] h by (simp add: js_div_def)
  have b: "pixelRatio (renderer (resize ?v example_engine)) = 1.5"
    using resize_surface [OF d', of example_engine example_three] by simp
  have c: "camera_aspect (run example_three example_engine evs)
      = js_div (fst (surface_size (renderer (run example_three example_engine evs))))
               (snd (surface_size (renderer (run example_three example_engine evs))))" for evs
    using resize_surface [OF d, of example_engine example_three] setupThree_example
    by blast
  show ?thesis using a b c by blast
qed

subsection \<open>Frames per second\<close>

text \<open>
  C3. Every tick of the monitor adds one to the frame counter. A tick that finds the
  window at least 1000 ms old (the difference of the two clock readings, as a double)
  sets \<open>fps\<close> to \<open>frames * 1000 / dt\<close>, the counter just incremented included and the
  quotient a double, rounded to the nearest integer with a tie going up; it writes that to
  the fps element, sets the counter to 0 and the window start to the tick's clock. Any
  other tick leaves \<open>fps\<close> and the window start alone. A window that is at least 1000 ms
  old in exact terms is one as a double too. So \<open>n\<close> ticks of a window that starts with
  the counter at 0, the last of them 1000 ms after the window start and the others before
  that, give \<open>fps = n\<close>: 60 for 60 ticks and 30 for 30.
\<close>

theorem frameTick_fps:
  "perf_frames (frameTick pf t r P)
     = (if 1000 \<le> fl64 (t - perf_last P) then 0 else perf_frames P + 1)
   \<and> (1000 \<le> fl64 (t - perf_last P) \<longrightarrow>
        perf_fps (frameTick pf t r P)
          = \<lfloor>fl64 (fl64 (real (perf_frames P + 1) * 1000) / fl64 (t - perf_last P)) + 1 / 2\<rfloor>
      \<and> perf_last (frameTick pf t r P) = t
      \<and> fpsEl (frameTick pf t r P)
          = map_option (\<lambda>_. String_int (perf_fps (frameTick pf t r P))) (fpsEl P))
   \<and> (fl64 (t - perf_last P) < 1000 \<longrightarrow>
        perf_fps (frameTick pf t r P) = perf_fps P
      \<and> perf_last (frameTick pf t r P) = perf_last P
      \<and> fpsEl (frameTick pf t r P) = fpsEl P)
   \<and> (1000 \<le> t - perf_last P \<longrightarrow> 1000 \<le> fl64 (t - perf_last P))
   \<and> (\<forall>ts. perf_frames P = 0 \<and> (\<forall>u \<in> set ts. fl64 (u - perf_last P) < 1000)
           \<and> fl64 (t - perf_last P) = 1000 \<and> (length ts + 1) * 1000 < 2 ^ 53 \<longrightarrow>
        perf_fps (frameTicks pf r (ts @ [t]) P) = int (length ts + 1)
      \<and> perf_frames (frameTicks pf r (ts @ [t]) P) = 0
      \<and> perf_last (frameTicks pf r (ts @ [t]) P) = t)"
proof -
  have a: "perf_frames (frameTick pf t r P)
     = (if 1000 \<le> fl64 (t - perf_last P) then 0 else perf_frames P + 1)"
    by (simp add: frameTick_def Let_def)
  have b: "perf_fps (frameTick pf t r P)
          = \<lfloor>fl64 (fl64 (real (perf_frames P + 1) * 1000) / fl64 (t - perf_last P)) + 1 / 2\<rfloor>
      \<and> perf_last (frameTick pf t r P) = t
      \<and> fpsEl (frameTick pf t r P)
          = map_option (\<lambda>_. String_int (perf_fps (frameTick pf t r P))) (fpsEl P)"
    if "1000 \<le> fl64 (t - perf_last P)"
    using frameTick_sample [OF that] by blast
  have c: "perf_fps (frameTick pf t r P) = perf_fps P
      \<and> perf_last (frameTick pf t r P) = perf_last P
      \<and> fpsEl (frameTick pf t r P) = fpsEl P"
    if "fl64 (t - perf_last P) < 1000"
    using that by (simp add: frameTick_below)
  have e: "1000 \<le> fl64 (t - perf_last P)" if "1000 \<le> t - perf_last P"
    using that by (rule fl64_sample)
  have d: "perf_fps (frameTicks pf r (ts @ [t]) P) = int (length ts + 1)
      \<and> perf_frames (frameTicks pf r (ts @ [t]) P) = 0
      \<and> perf_last (frameTicks pf r (ts @ [t]) P) = t"
    if z: "perf_frames P = 0" and w: "\<forall>u \<in> set ts. fl64 (u - perf_last P) < 1000"
      and dt: "fl64 (t - perf_last P) = 1000" and n: "(length ts + 1) * 1000 < 2 ^ 53" for ts
  proof -
    let ?Q = "P \<lparr> perf_frames := perf_frames P + length ts \<rparr>"
    have q: "frameTicks pf r ts P = ?Q" using w by (rule frameTicks_below)
    have ge: "1000 \<le> fl64 (t - perf_last ?Q)" using dt by simp
    have "length ts + 1 \<le> (length ts + 1) * 1000" by simp
    then have n1: "length ts + 1 < 2 ^ 53" using n by (rule le_less_trans)
    have prod: "fl64 (real (perf_frames ?Q + 1) * 1000) = real (length ts + 1) * 1000"
      using fl64_of_nat [OF n] z by simp
    have "fl64 (fl64 (real (perf_frames ?Q + 1) * 1000) / fl64 (t - perf_last ?Q))
        = fl64 (real (length ts + 1) * 1000 / 1000)"
      using dt by (simp only: prod) simp
    also have "\<dots> = fl64 (real (length ts + 1))"
    proof -
      have "real (length ts + 1) * 1000 / 1000 = real (length ts + 1)" by simp
      then show ?thesis by (simp only:)
    qed
    also have "\<dots> = real (length ts + 1)" using n1 by (rule fl64_of_nat)
    finally have quot: "fl64 (fl64 (real (perf_frames ?Q + 1) * 1000) / fl64 (t - perf_last ?Q))
        = real (length ts + 1)" .
    have "perf_fps (frameTick pf t r ?Q) = \<lfloor>real (length ts + 1) + 1 / 2\<rfloor>"
      using frameTick_sample(1) [OF ge] by (simp only: quot)
    also have "\<dots> = int (length ts + 1)"
      using Math_round_of_nat [of "length ts + 1"] by (simp only: Math_round_def)
    finally have fps: "perf_fps (frameTick pf t r ?Q) = int (length ts + 1)" .
    have rest: "perf_frames (frameTick pf t r ?Q) = 0 \<and> perf_last (frameTick pf t r ?Q) = t"
      using frameTick_sample(2,3) [OF ge] by blast
    show ?thesis
      unfolding frameTicks_snoc q using rest by (simp only: fps simp_thms)
  qed
  show ?thesis using a b c d e by blast
qed

text \<open>
  Sixty ticks and thirty ticks over 1000 ms. Ticks at 1, 2 and 3 ms and a fourth at the
  double nearest to 1142.857142857143: the quotient is the double 3.5 and the rate 4.
  A window of 1007 ms closed by the 45th tick: 44.687 rounds to 45. A window of 1500 ms
  closed by the 45th tick, and a tick inside the window.
\<close>

theorem frameTick_fps_witness:
  "perf_fps (frameTicks None None (replicate 59 500 @ [1000]) example_perf) = 60
   \<and> perf_fps (frameTicks None None (replicate 29 500 @ [1000]) example_perf) = 30
   \<and> perf_fps (frameTick None (5026338869833143 / 4398046511104) None
        (frameTicks None None [1, 2, 3] example_perf)) = 4
   \<and> perf_fps (frameTick None 1007 None (example_perf \<lparr> perf_frames := 44 \<rparr>)) = 45
   \<and> fpsEl (frameTick None 1007 None (example_perf \<lparr> perf_frames := 44 \<rparr>)) = Some ''45''
   \<and> perf_fps (frameTick None 1500 None (example_perf \<lparr> perf_frames := 44 \<rparr>)) = 30
   \<and> fpsEl (frameTick None 1500 None (example_perf \<lparr> perf_frames := 44 \<rparr>)) = Some ''30''
   \<and> perf_frames (frameTick None 500 None (example_perf \<lparr> perf_frames := 44 \<rparr>)) = 45
   \<and> perf_fps (frameTick None 500 None (example_perf \<lparr> perf_frames := 44 \<rparr>)) = 0"
proof -
  have l: "perf_last example_perf = 0" and f: "perf_frames example_perf = 0"
    by (simp_all add: example_perf_def)
  have w59: "\<forall>u \<in> set (replicate 59 (500::real)). fl64 (u - perf_last example_perf) < 1000"
    by (simp add: l fl64_numeral)
  have w29: "\<forall>u \<in> set (replicate 29 (500::real)). fl64 (u - perf_last example_perf) < 1000"
    by (simp add: l fl64_numeral)
  have dt: "fl64 (1000 - perf_last example_perf) = 1000"
    by (simp add: l fl64_numeral)
  have s60: "perf_fps (frameTicks None None (replicate 59 500 @ [1000]) example_perf) = 60"
    using frameTick_fps [of None 1000 None example_perf] f w59 dt by simp
  have s30: "perf_fps (frameTicks None None (replicate 29 500 @ [1000]) example_perf) = 30"
    using frameTick_fps [of None 1000 None example_perf] f w29 dt by simp
  let ?P = "example_perf \<lparr> perf_frames := 44 \<rparr>"
  let ?T = "5026338869833143 / 4398046511104 :: real"
  have three: "frameTicks None None [1, 2, 3] example_perf = example_perf \<lparr> perf_frames := 3 \<rparr>"
  proof -
    have "\<forall>u \<in> set [1, 2, 3 :: real]. fl64 (u - perf_last example_perf) < 1000"
      using fl64_of_int [of 1] by (simp add: l fl64_numeral)
    then show ?thesis using frameTicks_below [of "[1, 2, 3]" example_perf None None]
      by (simp add: f)
  qed
  have flT: "fl64 ?T = ?T"
  proof -
    have "fl64 ?T = of_int (round_half_even (?T / 2 powi (10 - 52))) * 2 powi (10 - 52)"
      by (rule fl64_pos) simp_all
    also have "\<dots> = ?T" by (simp add: round_half_even_def Let_def)
    finally show ?thesis .
  qed
  have flq: "fl64 (4000 / ?T) = 7 / 2"
  proof -
    have "fl64 (4000 / ?T) = of_int (round_half_even ((4000 / ?T) / 2 powi (1 - 52))) * 2 powi (1 - 52)"
      by (rule fl64_pos) simp_all
    also have "\<dots> = 7 / 2" by (simp add: round_half_even_def Let_def)
    finally show ?thesis .
  qed
  have tie: "perf_fps (frameTick None ?T None (frameTicks None None [1, 2, 3] example_perf)) = 4"
  proof -
    let ?Q = "example_perf \<lparr> perf_frames := 3 \<rparr>"
    have ge: "1000 \<le> fl64 (?T - perf_last ?Q)" by (simp add: l flT)
    have "perf_fps (frameTick None ?T None ?Q)
        = \<lfloor>fl64 (fl64 (real (perf_frames ?Q + 1) * 1000) / fl64 (?T - perf_last ?Q)) + 1 / 2\<rfloor>"
      using frameTick_fps [of None ?T None ?Q] ge by blast
    also have "\<dots> = \<lfloor>fl64 (4000 / ?T) + 1 / 2\<rfloor>"
      by (simp add: l flT fl64_numeral)
    also have "\<dots> = 4" by (simp only: flq) simp
    finally show ?thesis by (simp only: three)
  qed
  have fl1007: "fl64 (45000 / 1007) = 3144581418068401 / 70368744177664"
  proof -
    have "fl64 (45000 / 1007)
        = of_int (round_half_even ((45000 / 1007) / 2 powi (5 - 52))) * 2 powi (5 - 52)"
      by (rule fl64_pos) simp_all
    also have "\<dots> = 3144581418068401 / 70368744177664"
      by (simp add: round_half_even_def Let_def)
    finally show ?thesis .
  qed
  have up: "perf_fps (frameTick None 1007 None ?P) = 45
          \<and> fpsEl (frameTick None 1007 None ?P) = Some ''45''"
  proof -
    have ge: "1000 \<le> fl64 (1007 - perf_last ?P)" by (simp add: l fl64_numeral)
    have "perf_fps (frameTick None 1007 None ?P)
        = \<lfloor>fl64 (fl64 (real (perf_frames ?P + 1) * 1000) / fl64 (1007 - perf_last ?P)) + 1 / 2\<rfloor>"
      using frameTick_fps [of None 1007 None ?P] ge by blast
    also have "\<dots> = \<lfloor>fl64 (45000 / 1007) + 1 / 2\<rfloor>"
      by (simp add: l fl64_numeral)
    also have "\<dots> = 45" by (simp only: fl1007) simp
    finally have v: "perf_fps (frameTick None 1007 None ?P) = 45" .
    have "String_int 45 = ''45''" by (simp add: String_int_def String_nat.simps)
    then show ?thesis
      using frameTick_fps [of None 1007 None ?P] ge v by (simp add: example_perf_def)
  qed
  have hi: "perf_fps (frameTick None 1500 None ?P) = 30
          \<and> fpsEl (frameTick None 1500 None ?P) = Some ''30''"
  proof -
    have ge: "1000 \<le> fl64 (1500 - perf_last ?P)" by (simp add: l fl64_numeral)
    have "perf_fps (frameTick None 1500 None ?P)
        = \<lfloor>fl64 (fl64 (real (perf_frames ?P + 1) * 1000) / fl64 (1500 - perf_last ?P)) + 1 / 2\<rfloor>"
      using frameTick_fps [of None 1500 None ?P] ge by blast
    also have "\<dots> = 30" by (simp add: l fl64_numeral)
    finally have v: "perf_fps (frameTick None 1500 None ?P) = 30" .
    have "String_int 30 = ''30''" by (simp add: String_int_def String_nat.simps)
    then show ?thesis
      using frameTick_fps [of None 1500 None ?P] ge v by (simp add: example_perf_def)
  qed
  have lo: "perf_frames (frameTick None 500 None ?P) = 45
          \<and> perf_fps (frameTick None 500 None ?P) = 0"
  proof -
    have lt: "fl64 (500 - perf_last ?P) < 1000" by (simp add: l fl64_numeral)
    then show ?thesis
      using frameTick_fps [of None 500 None ?P] by (simp add: example_perf_def)
  qed
  show ?thesis using s60 s30 tie up hi lo by blast
qed

subsection \<open>The time step of a frame\<close>

text \<open>
  C4, as stated, fails: \<open>renderLoop\<close> passes \<open>t - lastTime\<close> on as it is. With
  \<open>lastTime = 1000\<close> and a clock that reads 400, the scene advances by \<open>- 600\<close>.
\<close>

theorem renderLoop_dt_counterexample:
  "lastTime example_engine = 1000 \<and> t_loop example_frame = 400
   \<and> elapsed (renderLoop example_three example_frame example_engine) - elapsed example_engine = - 600"
  by (simp add: renderLoop_def animateThree_def Let_def example_frame_def example_engine_def
      setupThree_def resize_def updateProjectionMatrix_def)

text \<open>
  C4, amended. The time step a frame passes to the scene update is the difference between
  the clock and the previous clock reading, not clamped: \<open>elapsed\<close> and the shader's time
  advance by exactly that difference and the reading is stored. The step is non-negative
  when the clock has not gone back, and negative when it has. Over any run of events the
  steps add up to the difference between the last reading and the first.
\<close>

theorem renderLoop_dt:
  fixes L :: "'c three" and s :: "'c engine"
  shows "elapsed (renderLoop L inp s) = elapsed s + (t_loop inp - lastTime s)
   \<and> uTime (renderLoop L inp s) = elapsed (renderLoop L inp s)
   \<and> lastTime (renderLoop L inp s) = t_loop inp
   \<and> (lastTime s \<le> t_loop inp \<longrightarrow> elapsed s \<le> elapsed (renderLoop L inp s))
   \<and> (t_loop inp < lastTime s \<longrightarrow> elapsed (renderLoop L inp s) < elapsed s)
   \<and> (\<forall>evs. elapsed (run L s evs) = elapsed s + (lastTime (run L s evs) - lastTime s))"
proof -
  have one: "elapsed (renderLoop L inp s) = elapsed s + (t_loop inp - lastTime s)
   \<and> uTime (renderLoop L inp s) = elapsed (renderLoop L inp s)
   \<and> lastTime (renderLoop L inp s) = t_loop inp"
    by (simp add: renderLoop_def animateThree_def Let_def)
  have all: "elapsed (run L s evs) = elapsed s + (lastTime (run L s evs) - lastTime s)" for evs
    using clock_run [of L s evs] by simp
  show ?thesis using one all by simp
qed

theorem renderLoop_dt_witness:
  "elapsed example_engine
     \<le> elapsed (renderLoop example_three (example_frame \<lparr> t_loop := 1016 \<rparr>) example_engine)
   \<and> elapsed (renderLoop example_three example_frame example_engine) < elapsed example_engine
   \<and> elapsed (run example_three example_engine
        [Frame (example_frame \<lparr> t_loop := 1016 \<rparr>), Frame example_frame]) = - 600"
proof -
  have l: "lastTime example_engine = 1000" and e: "elapsed example_engine = 0"
    by (simp_all add: example_engine_def setupThree_def resize_def updateProjectionMatrix_def Let_def)
  have up: "lastTime example_engine \<le> t_loop (example_frame \<lparr> t_loop := 1016 \<rparr>)"
    by (simp add: l)
  have down: "t_loop example_frame < lastTime example_engine"
    by (simp add: l example_frame_def)
  let ?evs = "[Frame (example_frame \<lparr> t_loop := 1016 \<rparr>), Frame example_frame]"
  have last: "lastTime (run example_three example_engine ?evs) = 400"
    by (simp add: run_def renderLoop_def animateThree_def Let_def example_frame_def)
  have a: "elapsed example_engine
     \<le> elapsed (renderLoop example_three (example_frame \<lparr> t_loop := 1016 \<rparr>) example_engine)"
    using renderLoop_dt [of example_three "example_frame \<lparr> t_loop := 1016 \<rparr>" example_engine] up
    by blast
  have b: "elapsed (renderLoop example_three example_frame example_engine) < elapsed example_engine"
    using renderLoop_dt [of example_three example_frame example_engine] down by blast
  have "elapsed (run example_three example_engine ?evs)
      = elapsed example_engine + (lastTime (run example_three example_engine ?evs) - lastTime example_engine)"
    using renderLoop_dt [of example_three example_frame example_engine] by blast
  then have c: "elapsed (run example_three example_engine ?evs) = - 600"
    by (simp add: l e last)
  show ?thesis using a b c by blast
qed

subsection \<open>Frames after dispose\<close>

text \<open>
  C5, as stated, fails: nothing in \<open>renderLoop\<close> looks at whether \<open>dispose\<close> was
  called. A frame after \<open>dispose\<close> draws once more and requests the next frame.
\<close>

theorem renderLoop_after_dispose_counterexample:
  "renderCalls (renderer (dispose example_engine)) = 0
   \<and> renderCalls (renderer (renderLoop example_three example_frame (dispose example_engine))) = 1
   \<and> rafRequests (dispose example_engine) = 1
   \<and> rafRequests (renderLoop example_three example_frame (dispose example_engine)) = 2"
  by (simp add: renderLoop_def animateThree_def render_scene_def Let_def dispose_def
      example_engine_def setupThree_def resize_def updateProjectionMatrix_def)

text \<open>
  C5, amended. \<open>dispose\<close> only calls the \<open>dispose\<close> methods of the resources; a frame
  delivered afterwards does what it would have done without it: it draws once, requests
  the next frame, advances \<open>elapsed\<close> by the time step and updates the rings, and it
  releases nothing. Frame and \<open>dispose\<close> commute, and \<open>n\<close> frames after \<open>dispose\<close>
  make \<open>n\<close> draws and \<open>n\<close> requests.
\<close>

theorem renderLoop_after_dispose:
  fixes L :: "'c three" and s :: "'c engine"
  shows "renderLoop L inp (dispose s) = dispose (renderLoop L inp s)
   \<and> renderCalls (renderer (renderLoop L inp (dispose s))) = renderCalls (renderer (dispose s)) + 1
   \<and> rafRequests (renderLoop L inp (dispose s)) = rafRequests (dispose s) + 1
   \<and> elapsed (renderLoop L inp (dispose s))
       = elapsed (dispose s) + (t_loop inp - lastTime (dispose s))
   \<and> torusGroup (renderLoop L inp (dispose s))
       = updateTori (pointer3D (dispose s)) (torusGroup (dispose s))
   \<and> released (renderLoop L inp (dispose s)) = released (dispose s)
   \<and> (\<forall>inps. renderCalls (renderer (run L (dispose s) (map Frame inps)))
                = renderCalls (renderer (dispose s)) + length inps
            \<and> rafRequests (run L (dispose s) (map Frame inps))
                = rafRequests (dispose s) + length inps
            \<and> released (run L (dispose s) (map Frame inps)) = released (dispose s))"
proof -
  have one: "renderLoop L inp (dispose s) = dispose (renderLoop L inp s)"
    by (simp add: renderLoop_def animateThree_def render_scene_def Let_def dispose_def)
  have fields: "renderCalls (renderer (renderLoop L inp (dispose s))) = renderCalls (renderer (dispose s)) + 1
   \<and> rafRequests (renderLoop L inp (dispose s)) = rafRequests (dispose s) + 1
   \<and> elapsed (renderLoop L inp (dispose s))
       = elapsed (dispose s) + (t_loop inp - lastTime (dispose s))
   \<and> torusGroup (renderLoop L inp (dispose s))
       = updateTori (pointer3D (dispose s)) (torusGroup (dispose s))
   \<and> released (renderLoop L inp (dispose s)) = released (dispose s)"
    by (simp add: renderLoop_def animateThree_def render_scene_def Let_def)
  show ?thesis using one fields draws_frames [of L "dispose s"] by blast
qed

text \<open>Three frames after \<open>dispose\<close> on a fresh engine: three draws.\<close>

theorem renderLoop_after_dispose_witness:
  "renderCalls (renderer (run example_three (dispose example_engine)
      (map Frame [example_frame, example_frame, example_frame]))) = 3"
proof -
  have z: "renderCalls (renderer (dispose example_engine)) = 0"
    by (simp add: dispose_def example_engine_def setupThree_def resize_def
        updateProjectionMatrix_def Let_def)
  have "renderCalls (renderer (run example_three (dispose example_engine)
      (map Frame [example_frame, example_frame, example_frame])))
    = renderCalls (renderer (dispose example_engine))
        + length [example_frame, example_frame, example_frame]"
    using renderLoop_after_dispose [of example_three example_frame example_engine] by blast
  then show ?thesis by (simp add: z)
qed

subsection \<open>Fields the monitor cannot read\<close>




subsection \<open>Pointer moves that miss the plane\<close>

text \<open>
  C7. For a pointer move over a window that is not empty, let \<open>r\<close> be the ray the
  raycaster sets from the camera through the pointer. If no point of \<open>r\<close> lies in the
  plane \<open>z = 0\<close>, the stored world point keeps its value. If the world point changes,
  then \<open>r\<close> meets the plane and the new world point is the point where it does.
\<close>

theorem onPointerMove_keeps_worldPoint:
  assumes "0 < innerWidth win" and "0 < innerHeight win"
    and r: "r = setFromCamera L (Vector2 ((clientX e / real (innerWidth win)) * 2 - 1)
                                          (- (clientY e / real (innerHeight win)) * 2 + 1))
                                 (camera_pose s)"
  shows "(\<not> (\<exists>t\<ge>0. vz (ray_at r t) = 0) \<longrightarrow>
            pointer3D (onPointerMove L win e s) = pointer3D s)
       \<and> (pointer3D (onPointerMove L win e s) \<noteq> pointer3D s \<longrightarrow>
            (\<exists>t\<ge>0. vz (ray_at r t) = 0 \<and> pointer3D (onPointerMove L win e s) = ray_at r t))"
proof -
  let ?pl = "\<lparr> normal = Vector3 0 0 1, plane_constant = 0 \<rparr>"
  have x: "js_affine 2 (- 1) (js_quot (clientX e) (innerWidth win))
      = Num ((clientX e / real (innerWidth win)) * 2 - 1)"
    using assms(1) by (simp add: js_quot_def js_affine_def mult.commute)
  have y: "js_affine (- 2) 1 (js_quot (clientY e) (innerHeight win))
      = Num (- (clientY e / real (innerHeight win)) * 2 + 1)"
    using assms(2) by (simp add: js_quot_def js_affine_def mult.commute)
  have p: "pointer3D (onPointerMove L win e s) = intersectPlane r ?pl (pointer3D s)"
    unfolding onPointerMove_def Let_def x y r by simp
  show ?thesis
  proof (cases "distanceToPlane r ?pl")
    case None
    then have "pointer3D (onPointerMove L win e s) = pointer3D s"
      by (simp add: p intersectPlane_def)
    then show ?thesis by simp
  next
    case (Some t)
    then have "pointer3D (onPointerMove L win e s) = ray_at r t"
      by (simp add: p intersectPlane_def)
    moreover have "0 \<le> t \<and> vz (ray_at r t) = 0"
      using Some by (rule distanceToPlane_planeZ_Some)
    ultimately show ?thesis by auto
  qed
qed

text \<open>
  A camera that looks away from the plane keeps the world point; one that looks at it
  moves the world point into the plane.
\<close>

theorem onPointerMove_keeps_worldPoint_witness:
  "pointer3D (onPointerMove example_three_away example_window example_move example_engine)
     = pointer3D example_engine
   \<and> pointer3D (onPointerMove example_three example_window example_move example_engine)
     \<noteq> pointer3D example_engine
   \<and> vz (pointer3D (onPointerMove example_three example_window example_move example_engine)) = 0"
proof -
  have w: "0 < innerWidth example_window" and h: "0 < innerHeight example_window"
    by (simp_all add: example_window_def)
  have miss: "\<not> (\<exists>t\<ge>0. vz (ray_at
      (setFromCamera example_three_away
         (Vector2 ((clientX example_move / real (innerWidth example_window)) * 2 - 1)
                  (- (clientY example_move / real (innerHeight example_window)) * 2 + 1))
         (camera_pose example_engine)) t) = 0)"
    by (simp add: example_three_away_def ray_at_def)
  have kept: "pointer3D (onPointerMove example_three_away example_window example_move example_engine)
     = pointer3D example_engine"
    using onPointerMove_keeps_worldPoint [OF w h refl, of example_three_away example_move example_engine]
      miss by simp
  have moved: "pointer3D (onPointerMove example_three example_window example_move example_engine)
     \<noteq> pointer3D example_engine"
    by (simp add: onPointerMove_def Let_def js_quot_def js_affine_def
        example_three_def example_window_def example_move_def
        example_engine_def setupThree_def resize_def updateProjectionMatrix_def
        intersectPlane_def distanceToPlane_def dot_def ray_at_def)
  have "vz (pointer3D (onPointerMove example_three example_window example_move example_engine)) = 0"
    using onPointerMove_keeps_worldPoint [OF w h refl, of example_three example_move example_engine]
      moved by auto
  then show ?thesis using kept moved by blast
qed

subsection \<open>Calling dispose twice\<close>

text \<open>
  C8, as stated, fails: \<open>dispose\<close> keeps no record of having run. On a fresh engine the
  first call makes 21 release attempts and the second makes 21 more.
\<close>

theorem dispose_twice_counterexample:
  "length (released (dispose example_engine)) = 21
   \<and> length (released (dispose (dispose example_engine))) = 42"
  by (simp add: dispose_def released_example torusGroup_example length_dispose_buildTori)

text \<open>
  C8, amended. Every call of \<open>dispose\<close> makes the same release attempts, in the same
  order: the renderer, the particle geometry, the particle material, and the geometry and
  material of each ring. A second call repeats those of the first and changes nothing else.
  On an engine built by \<open>setupThree\<close> a call adds 21 attempts, whatever happened before.
\<close>

theorem dispose_repeats:
  fixes L :: "'c three" and s :: "'c engine"
  shows "released (dispose (dispose s))
           = released (dispose s) @ [TheRenderer, ParticlesGeo, ParticlesMat]
               @ concat (map dispose_mesh (torusGroup s))
       \<and> released (dispose s)
           = released s @ [TheRenderer, ParticlesGeo, ParticlesMat]
               @ concat (map dispose_mesh (torusGroup s))
       \<and> dispose (dispose s) = (dispose s) \<lparr> released := released (dispose (dispose s)) \<rparr>
       \<and> (\<forall>canvas win pose t0 P s0 evs.
            setupThree canvas win pose t0 P = Some s0 \<longrightarrow>
            length (released (dispose (run L s0 evs))) = length (released (run L s0 evs)) + 21)"
proof -
  have n: "length (released (dispose (run L s0 evs))) = length (released (run L s0 evs)) + 21"
    if "setupThree canvas win pose t0 P = Some s0" for canvas win pose t0 P evs and s0 :: "'c engine"
  proof -
    have "length (concat (map dispose_mesh (torusGroup (run L s0 evs)))) = 18"
      using rings_run [OF that] by (simp only: length_dispose_buildTori)
    then show ?thesis by (simp add: dispose_def)
  qed
  have "released (dispose (dispose s))
           = released (dispose s) @ [TheRenderer, ParticlesGeo, ParticlesMat]
               @ concat (map dispose_mesh (torusGroup s))"
    by (simp add: dispose_def)
  moreover have "released (dispose s)
           = released s @ [TheRenderer, ParticlesGeo, ParticlesMat]
               @ concat (map dispose_mesh (torusGroup s))"
    by (simp add: dispose_def)
  moreover have "dispose (dispose s) = (dispose s) \<lparr> released := released (dispose (dispose s)) \<rparr>"
    by (simp add: dispose_def)
  ultimately show ?thesis using n by blast
qed

theorem dispose_repeats_witness:
  "length (released (dispose (run example_three example_engine [Frame example_frame, Dispose])))
     = length (released (run example_three example_engine [Frame example_frame, Dispose])) + 21"
  using dispose_repeats [of example_engine example_three] setupThree_example by blast

subsection \<open>Ring hues\<close>

text \<open>
  C9. \<open>buildTori\<close> makes nine rings; ring \<open>i\<close> of them carries the index \<open>i\<close> and a
  material whose hue is \<open>(0.55 + (i / 9) * 0.25) mod 1\<close>, a function of \<open>i\<close> alone.
  For these indices the reduction modulo 1 changes nothing, and the hues rise with the
  index inside the arc from 0.55 to 0.80.
\<close>

theorem buildTori_hue:
  assumes "i < 9"
  shows "length buildTori = 9
       \<and> index (buildTori ! i) = i
       \<and> map_option hue (material (buildTori ! i)) = Some (spec_hue i)
       \<and> spec_hue i = 0.55 + (real i / 9) * 0.25
       \<and> 0.55 \<le> spec_hue i \<and> spec_hue i < 0.55 + 0.25
       \<and> (\<forall>j. i < j \<longrightarrow> j < 9 \<longrightarrow> spec_hue i < spec_hue j)"
proof -
  have val: "spec_hue k = 0.55 + (real k / 9) * 0.25" if "k < 9" for k
  proof -
    have "real k < 9" using that by simp
    then have "0 \<le> 0.55 + (real k / 9) * 0.25" and "0.55 + (real k / 9) * 0.25 < 1"
      by simp_all
    then show ?thesis unfolding spec_hue_def by (rule js_rem_unit)
  qed
  have len: "length buildTori = 9" by (simp add: buildTori_def count_def)
  have idx: "index (buildTori ! i) = i"
    using assms by (simp add: nth_buildTori count_def buildTorus_def)
  have mat: "map_option hue (material (buildTori ! i)) = Some (spec_hue i)"
    using assms by (simp add: nth_buildTori count_def buildTorus_def spec_hue_def)
  have lo: "0.55 \<le> spec_hue i" using assms by (simp add: val)
  have "real i < 9" using assms by simp
  then have hi: "spec_hue i < 0.55 + 0.25" using assms by (simp add: val)
  have incr: "spec_hue i < spec_hue j" if "i < j" and "j < 9" for j
    using that assms by (simp add: val)
  show ?thesis using len idx mat val [OF assms] lo hi incr by blast
qed

theorem buildTori_hue_witness:
  "index (buildTori ! 8) = 8
   \<and> map_option hue (material (buildTori ! 8)) = Some (spec_hue 8)
   \<and> spec_hue 8 = 139 / 180
   \<and> spec_hue 3 < spec_hue 8"
proof -
  have a: "(8::nat) < 9" and b: "(3::nat) < 9" and c: "(3::nat) < 8" by simp_all
  show ?thesis
    using buildTori_hue [OF a] buildTori_hue [OF b] a c by simp
qed

subsection \<open>Bounds of the ring scale\<close>

text \<open>
  C10. After a frame, whatever the state and the pointer point before it, every ring's
  scale is uniform and lies in \<open>[0.98, 1.14]\<close>. The same holds in every state an engine
  reaches after \<open>setupThree\<close>, the one before the first frame and before any pointer
  move included.
\<close>

theorem renderLoop_scale_in_bounds:
  fixes L :: "'c three" and s :: "'c engine"
  shows "(\<forall>m \<in> set (torusGroup (renderLoop L inp s)).
            scale m = setScalar (vx (scale m)) \<and> 0.98 \<le> vx (scale m) \<and> vx (scale m) \<le> 1.14)
       \<and> (\<forall>canvas win pose t0 P s0 evs.
            setupThree canvas win pose t0 P = Some s0 \<longrightarrow>
            (\<forall>m \<in> set (torusGroup (run L s0 evs)).
               scale m = setScalar (vx (scale m)) \<and> 0.98 \<le> vx (scale m) \<and> vx (scale m) \<le> 1.14))"
proof -
  have a: "\<forall>m \<in> set (torusGroup (renderLoop L inp s)). scale_in_bounds m"
    by (simp add: scale_in_bounds_updateTori)
  have b: "\<forall>m \<in> set (torusGroup (run L s0 evs)). scale_in_bounds m"
    if "setupThree canvas win pose t0 P = Some s0" for canvas win pose t0 P evs and s0 :: "'c engine"
  proof -
    have "\<forall>m \<in> set (torusGroup s0). scale_in_bounds m"
      using that by (simp add: torusGroup_setupThree scale_in_bounds_buildTori)
    then show ?thesis
      by (rule run_invariant) (rule scale_in_bounds_step)
  qed
  show ?thesis using a b unfolding scale_in_bounds_def by blast
qed

theorem renderLoop_scale_in_bounds_witness:
  "0.98 \<le> vx (scale (torusGroup (renderLoop example_three example_frame example_engine) ! 0))
   \<and> vx (scale (torusGroup (renderLoop example_three example_frame example_engine) ! 0)) \<le> 1.14
   \<and> 0.98 \<le> vx (scale (torusGroup (run example_three example_engine
                  [PointerMove example_window example_move, Frame example_frame]) ! 8))
   \<and> vx (scale (torusGroup (run example_three example_engine
                  [PointerMove example_window example_move, Frame example_frame]) ! 8)) \<le> 1.14"
proof -
  let ?evs = "[PointerMove example_window example_move, Frame example_frame]"
  have "length (torusGroup (renderLoop example_three example_frame example_engine)) = 9"
    by (simp add: torusGroup_example updateTori_def buildTori_def count_def)
  then have m0: "torusGroup (renderLoop example_three example_frame example_engine) ! 0
      \<in> set (torusGroup (renderLoop example_three example_frame example_engine))"
    by (intro nth_mem) simp
  have "length (torusGroup (run example_three example_engine ?evs)) = 9"
    using setupThree_example by (rule length_torusGroup_run)
  then have m8: "torusGroup (run example_three example_engine ?evs) ! 8
      \<in> set (torusGroup (run example_three example_engine ?evs))"
    by (intro nth_mem) simp
  show ?thesis
    using renderLoop_scale_in_bounds [of example_three example_frame example_engine]
      m0 m8 setupThree_example
    by blast
qed

end
